theory Spec2Isabelle
  imports Main
begin

section \<open>Data model\<close>

text \<open>
  A node of the document tree. Every JavaScript object has an identity; the first
  component of each constructor is that identity (the address of the object), which is
  what \<^verbatim>\<open>===\<close> and \<^verbatim>\<open>!==\<close> compare. The second component of \<open>Text\<close> and the third of
  \<open>Element\<close> is the key, the last one the literal text or the child nodes.
\<close>

datatype category = Document | Block | Inline

datatype node =
    Text nat string string
  | Element nat category string "node list"

fun addr :: "node \<Rightarrow> nat" where
  "addr (Text a k t) = a"
| "addr (Element a c k ns) = a"

fun key :: "node \<Rightarrow> string" where
  "key (Text a k t) = k"
| "key (Element a c k ns) = k"

text \<open>The \<^verbatim>\<open>object\<close> property: the category of a node as a string.\<close>

fun object :: "node \<Rightarrow> string" where
  "object (Text a k t) = ''text''"
| "object (Element a Document k ns) = ''document''"
| "object (Element a Block k ns) = ''block''"
| "object (Element a Inline k ns) = ''inline''"

text \<open>The \<^verbatim>\<open>nodes\<close> property: a text leaf has none (\<^verbatim>\<open>undefined\<close>).\<close>

fun nodes :: "node \<Rightarrow> node list option" where
  "nodes (Text a k t) = None"
| "nodes (Element a c k ns) = Some ns"

text \<open>
  Modelled from the spec: the \<^verbatim>\<open>text\<close> property of a node (the slate package is not part
  of the sources). A text leaf holds its literal content; an interior node reads as the
  content of its leaves in document order.
\<close>

fun getText :: "node \<Rightarrow> string" where
  "getText (Text a k t) = t"
| "getText (Element a c k ns) = concat (map getText ns)"

record Point =
  path :: "nat list"
  offset :: nat

text \<open>
  A range: two points, the focus flag (\<^verbatim>\<open>isFocused\<close>, which a selection carries; a
  decoration or an annotation has none, which reads as false) and the other data of its
  kind (marks, type, key, data).
\<close>

record 'm Range =
  start :: Point
  end' :: Point
  focused :: bool
  metadata :: 'm

datatype error = TypeError

subsection \<open>Immutable lists\<close>

text \<open>
  \<^verbatim>\<open>List.first()\<close> is \<^verbatim>\<open>undefined\<close> on the empty list, \<^verbatim>\<open>List.rest()\<close> of the empty
  list is empty, \<^verbatim>\<open>List.get(i)\<close> is \<^verbatim>\<open>undefined\<close> out of range.
\<close>

definition first :: "'a list \<Rightarrow> 'a option" where
  "first xs = (case xs of [] \<Rightarrow> None | x # _ \<Rightarrow> Some x)"

definition rest :: "'a list \<Rightarrow> 'a list" where
  "rest xs = (case xs of [] \<Rightarrow> [] | _ # ys \<Rightarrow> ys)"

definition get :: "'a list \<Rightarrow> nat \<Rightarrow> 'a option" where
  "get xs i = (if i < length xs then Some (xs ! i) else None)"

text \<open>
  The relational operators of JavaScript on numbers that may be \<^verbatim>\<open>undefined\<close>:
  \<^verbatim>\<open>undefined\<close> converts to NaN and every comparison with NaN is false.
\<close>

definition js_lt :: "nat option \<Rightarrow> nat option \<Rightarrow> bool" where
  "js_lt a b = (case a of None \<Rightarrow> False | Some x \<Rightarrow> (case b of None \<Rightarrow> False | Some y \<Rightarrow> x < y))"

definition js_le :: "nat option \<Rightarrow> nat option \<Rightarrow> bool" where
  "js_le a b = (case a of None \<Rightarrow> False | Some x \<Rightarrow> (case b of None \<Rightarrow> False | Some y \<Rightarrow> x \<le> y))"

subsection \<open>Points, ranges and paths of the slate package\<close>

text \<open>
  The classes \<^verbatim>\<open>Point\<close> and \<^verbatim>\<open>Range\<close> and the module \<^verbatim>\<open>PathUtils\<close> belong to the slate
  package, which is not part of the sources: a point is a path and an offset, a range is
  two points and the data of its kind.
\<close>

text \<open>
  Modelled from the spec: \<^verbatim>\<open>Point.setPath(path)\<close> of the slate package; the point with
  the path replaced (rebasing removes the leading path component and keeps the offset).
\<close>

definition setPath :: "Point \<Rightarrow> nat list \<Rightarrow> Point" where
  "setPath p ps = p\<lparr>path := ps\<rparr>"

text \<open>
  Modelled from the spec: \<^verbatim>\<open>Point.moveTo(path, offset)\<close> of the slate package; the point
  at the given path and offset (clamping puts a point at a leaf and an offset in it).
\<close>

definition moveTo :: "Point \<Rightarrow> nat list \<Rightarrow> nat \<Rightarrow> Point" where
  "moveTo p ps n = p\<lparr>path := ps, offset := n\<rparr>"

text \<open>
  Modelled from the spec: \<^verbatim>\<open>Range.setStart(point)\<close> of the slate package; a new range
  with that start and everything else unchanged.
\<close>

definition setStart :: "'m Range \<Rightarrow> Point \<Rightarrow> 'm Range" where
  "setStart r p = r\<lparr>start := p\<rparr>"

text \<open>
  Modelled from the spec: \<^verbatim>\<open>Range.setEnd(point)\<close> of the slate package; a new range with
  that end and everything else unchanged.
\<close>

definition setEnd :: "'m Range \<Rightarrow> Point \<Rightarrow> 'm Range" where
  "setEnd r p = r\<lparr>end' := p\<rparr>"

text \<open>
  Modelled from the spec: \<^verbatim>\<open>PathUtils.create(array)\<close> of the slate package; the path with
  the components of the array.
\<close>

definition create :: "nat list \<Rightarrow> nat list" where
  "create xs = xs"

datatype direction = Forward | Backward

text \<open>
  Modelled from the spec: the depth-first traversal behind \<^verbatim>\<open>texts()\<close> of the slate
  package. \<open>textsBelow n\<close> lists, in document order, the text leaves at or below \<open>n\<close>,
  each with its path relative to \<open>n\<close>; \<open>textsFrom i cs\<close> lists the leaves below the
  children \<open>cs\<close>, the first of which has index \<open>i\<close>.
\<close>

fun textsBelow :: "node \<Rightarrow> (node \<times> nat list) list"
  and textsFrom :: "nat \<Rightarrow> node list \<Rightarrow> (node \<times> nat list) list" where
  "textsBelow (Text a k t) = [(Text a k t, [])]"
| "textsBelow (Element a c k ns) = textsFrom 0 ns"
| "textsFrom i [] = []"
| "textsFrom i (n # ns) = map (\<lambda>(t, p). (t, i # p)) (textsBelow n) @ textsFrom (Suc i) ns"

text \<open>
  Modelled from the spec: \<^verbatim>\<open>texts({ direction })\<close> of the slate package, the text leaves
  below an interior node with their paths relative to it, first to last or, backward,
  last to first. The projector calls it on interior children only; a text leaf has no
  leaves below it.
\<close>

definition texts :: "direction \<Rightarrow> node \<Rightarrow> (node \<times> nat list) list" where
  "texts d n =
     (case n of
        Text a k t \<Rightarrow> []
      | Element a c k ns \<Rightarrow> (case d of Forward \<Rightarrow> textsFrom 0 ns | Backward \<Rightarrow> rev (textsFrom 0 ns)))"

section \<open>The range projector\<close>

text \<open>
  \<^verbatim>\<open>getRelativeRange(node, index, range)\<close>. The start point (lines 227 to 239 of
  node.js) and the end point (lines 241 to 253) are computed one after the other; each
  is a point, \<^verbatim>\<open>null\<close>, or a TypeError: reading \<^verbatim>\<open>child.object\<close> of a child that does
  not exist, or destructuring the first entry of an empty \<^verbatim>\<open>texts()\<close>.
\<close>

definition relativeStart :: "node option \<Rightarrow> nat \<Rightarrow> 'm Range \<Rightarrow> error + Point option" where
  "relativeStart child index rng =
     (let startPath = path (start rng);
          endPath = path (end' rng);
          startIndex = first startPath;
          endIndex = first endPath
      in if startIndex = Some index then Inr (Some (setPath (start rng) (rest startPath)))
         else if js_lt startIndex (Some index) \<and> js_le (Some index) endIndex then
           (case child of
              None \<Rightarrow> Inl TypeError
            | Some c \<Rightarrow>
                if object c = ''text'' then Inr (Some (moveTo (start rng) (create [index]) 0))
                else (case texts Forward c of
                        [] \<Rightarrow> Inl TypeError
                      | (firstNode, firstPath) # _ \<Rightarrow> Inr (Some (moveTo (start rng) firstPath 0))))
         else Inr None)"

definition relativeEnd :: "node option \<Rightarrow> nat \<Rightarrow> 'm Range \<Rightarrow> error + Point option" where
  "relativeEnd child index rng =
     (let startPath = path (start rng);
          endPath = path (end' rng);
          startIndex = first startPath;
          endIndex = first endPath
      in if endIndex = Some index then Inr (Some (setPath (end' rng) (rest endPath)))
         else if js_le startIndex (Some index) \<and> js_lt (Some index) endIndex then
           (case child of
              None \<Rightarrow> Inl TypeError
            | Some c \<Rightarrow>
                if object c = ''text''
                then Inr (Some (moveTo (end' rng) (create [index]) (length (getText c))))
                else (case texts Backward c of
                        [] \<Rightarrow> Inl TypeError
                      | (lastNode, lastPath) # _ \<Rightarrow>
                          Inr (Some (moveTo (end' rng) lastPath (length (getText lastNode))))))
         else Inr None)"

definition getRelativeRange :: "node \<Rightarrow> nat \<Rightarrow> 'm Range \<Rightarrow> error + 'm Range option" where
  "getRelativeRange node index rng =
     (case nodes node of
        None \<Rightarrow> Inl TypeError
      | Some ns \<Rightarrow>
          (let child = get ns index
           in case relativeStart child index rng of
                Inl e \<Rightarrow> Inl e
              | Inr s \<Rightarrow>
                  (case relativeEnd child index rng of
                     Inl e \<Rightarrow> Inl e
                   | Inr e \<Rightarrow>
                       (case s of
                          None \<Rightarrow> Inr None
                        | Some startPoint \<Rightarrow>
                            (case e of
                               None \<Rightarrow> Inr None
                             | Some endPoint \<Rightarrow>
                                 Inr (Some (setEnd (setStart rng startPoint) endPoint)))))))"

section \<open>The node component\<close>

text \<open>
  The props of a node component. \<open>annotations\<close> is an immutable map, held as its
  entries; \<open>decorations\<close> is an immutable list; \<open>block\<close>, \<open>parent\<close> and \<open>selection\<close>
  may be absent. \<open>isSelected\<close> and \<open>isFocused\<close> are the truthiness of the properties of
  these names, false when the property is absent. The editor of the props is the same
  object at every level and is passed beside the props.
\<close>

record 'm Props =
  annotations :: "(string \<times> 'm Range) list"
  block :: "node option"
  decorations :: "'m Range list"
  node :: node
  parent :: "node option"
  readOnly :: bool
  selection :: "'m Range option"
  isSelected :: bool
  isFocused :: bool

text \<open>
  The element \<^verbatim>\<open><Component key={child.key} ... />\<close> made for a child: the component
  (\<^verbatim>\<open>Text\<close> or \<^verbatim>\<open>Node\<close>), the key and the props.
\<close>

datatype component = TextComponent | NodeComponent

datatype 'm element = ComponentElement component string "'m Props"

text \<open>
  The object handed to the render hook, in this order: \<^verbatim>\<open>key\<close>, \<^verbatim>\<open>isFocused\<close>,
  \<^verbatim>\<open>isSelected\<close>, \<^verbatim>\<open>node\<close>, \<^verbatim>\<open>parent\<close>, \<^verbatim>\<open>readOnly\<close>, \<^verbatim>\<open>attributes\<close>, \<^verbatim>\<open>children\<close>.
\<close>

datatype 'm hookProps =
  HookProps string "bool option" "'m Range option" node "node option" bool
    "(string \<times> string) list" "'m element list"

text \<open>
  What is outside the component: the plugin pipeline behind \<^verbatim>\<open>editor.run\<close> with the
  hook \<^verbatim>\<open>shouldNodeComponentUpdate\<close> (a verdict, or none) and with a render hook (its
  name, \<^verbatim>\<open>undefined\<close> when no category matched, and the props; the output is of a type
  \<open>'e\<close> of its own), \<^verbatim>\<open>editor.isVoid\<close>, \<^verbatim>\<open>node.getDecorations(editor)\<close> and
  \<^verbatim>\<open>node.getTextDirection()\<close>.
\<close>

record ('m, 'e) Editor =
  shouldNodeComponentUpdate :: "'m Props \<Rightarrow> 'm Props \<Rightarrow> bool option"
  run :: "string option \<Rightarrow> 'm hookProps \<Rightarrow> 'e"
  isVoid :: "node \<Rightarrow> bool"
  getDecorations :: "node \<Rightarrow> 'm Range list"
  getTextDirection :: "node \<Rightarrow> string option"

text \<open>
  Modelled from the spec: \<^verbatim>\<open>isLeafBlock()\<close> of the slate package; a leaf block is a block
  none of whose children is a block.
\<close>

definition isLeafBlock :: "node \<Rightarrow> bool" where
  "isLeafBlock n =
     (object n = ''block'' \<and>
      (case nodes n of None \<Rightarrow> False | Some ns \<Rightarrow> list_all (\<lambda>c. object c \<noteq> ''block'') ns))"

subsection \<open>The update gate\<close>

text \<open>
  \<^verbatim>\<open>equals\<close> of an immutable map compares the entries whatever their order; \<^verbatim>\<open>equals\<close> of
  an immutable list compares them in order.
\<close>

definition equalsMap :: "('k \<times> 'v) list \<Rightarrow> ('k \<times> 'v) list \<Rightarrow> bool" where
  "equalsMap a b = (map_of a = map_of b)"

definition equalsList :: "'a list \<Rightarrow> 'a list \<Rightarrow> bool" where
  "equalsList a b = (a = b)"

definition vetoWarning :: string where
  "vetoWarning = ''Returning false in `shouldNodeComponentUpdate` does not disable Slate's internal `shouldComponentUpdate` logic. If you want to prevent updates, use React's `shouldComponentUpdate` instead.''"

text \<open>
  \<^verbatim>\<open>shouldComponentUpdate(nextProps)\<close> of a component with props \<open>props\<close>. The result is
  the verdict and the warnings that \<^verbatim>\<open>warning(shouldUpdate !== false, ...)\<close> has printed.
\<close>

definition shouldComponentUpdate ::
  "('m, 'e) Editor \<Rightarrow> 'm Props \<Rightarrow> 'm Props \<Rightarrow> bool \<times> string list" where
  "shouldComponentUpdate editor props nextProps =
     (let shouldUpdate = shouldNodeComponentUpdate editor props nextProps;
          n = nextProps;
          p = props
      in if shouldUpdate \<noteq> None \<and> shouldUpdate = Some True then (True, [])
         else
           (if readOnly n \<noteq> readOnly p then True
            else if addr (node n) \<noteq> addr (node p) then True
            else if isSelected n \<or> isSelected p then True
            else if isFocused n \<or> isFocused p then True
            else if \<not> equalsMap (annotations n) (annotations p) then True
            else if \<not> equalsList (decorations n) (decorations p) then True
            else False,
            if shouldUpdate \<noteq> None \<and> \<not> (shouldUpdate \<noteq> Some False) then [vetoWarning] else []))"

subsection \<open>Rendering\<close>

fun mapE :: "('a \<Rightarrow> error + 'b) \<Rightarrow> 'a list \<Rightarrow> error + 'b list" where
  "mapE f [] = Inr []"
| "mapE f (x # xs) =
     (case f x of
        Inl e \<Rightarrow> Inl e
      | Inr y \<Rightarrow> (case mapE f xs of Inl e \<Rightarrow> Inl e | Inr ys \<Rightarrow> Inr (y # ys)))"

text \<open>\<^verbatim>\<open>filter(d => d)\<close> on a list, and on the entries of a map: \<^verbatim>\<open>null\<close> is dropped.\<close>

fun filterTruthy :: "'a option list \<Rightarrow> 'a list" where
  "filterTruthy [] = []"
| "filterTruthy (None # xs) = filterTruthy xs"
| "filterTruthy (Some x # xs) = x # filterTruthy xs"

fun filterTruthyEntries :: "('k \<times> 'a option) list \<Rightarrow> ('k \<times> 'a) list" where
  "filterTruthyEntries [] = []"
| "filterTruthyEntries ((k, None) # xs) = filterTruthyEntries xs"
| "filterTruthyEntries ((k, Some x) # xs) = (k, x) # filterTruthyEntries xs"

text \<open>
  The body of the \<^verbatim>\<open>map\<close> over the children (lines 138 to 164): the element for the
  child \<open>child\<close> at index \<open>i\<close>.
\<close>

definition renderChild ::
  "'m Props \<Rightarrow> 'm Range list \<Rightarrow> node \<times> nat \<Rightarrow> error + 'm element" where
  "renderChild props newDecorations ci =
     (let child = fst ci;
          i = snd ci;
          Component = (if object child = ''text'' then TextComponent else NodeComponent)
      in case (case selection props of
                 None \<Rightarrow> Inr None
               | Some s \<Rightarrow> getRelativeRange (node props) i s) of
           Inl e \<Rightarrow> Inl e
         | Inr sel \<Rightarrow>
             (case mapE (\<lambda>d. getRelativeRange (node props) i d) newDecorations of
                Inl e \<Rightarrow> Inl e
              | Inr ds \<Rightarrow>
                  (let decs = filterTruthy ds @ decorations props
                   in case mapE (\<lambda>(k, a). case getRelativeRange (node props) i a of
                                            Inl e \<Rightarrow> Inl e
                                          | Inr r \<Rightarrow> Inr (k, r))
                             (annotations props) of
                        Inl e \<Rightarrow> Inl e
                      | Inr as \<Rightarrow>
                          (let anns = filterTruthyEntries as
                           in Inr (ComponentElement Component (key child)
                                \<lparr>annotations = anns,
                                 block = (if object (node props) = ''block''
                                          then Some (node props) else block props),
                                 decorations = decs,
                                 node = child,
                                 parent = Some (node props),
                                 readOnly = readOnly props,
                                 selection = sel,
                                 isSelected = False,
                                 isFocused = False\<rparr>)))))"

text \<open>
  The output of \<^verbatim>\<open>render()\<close>: the element of the render hook, alone or as the child of
  \<^verbatim>\<open><Void {...this.props}>\<close>.
\<close>

datatype ('m, 'e) rendered = Plain 'e | Void "'m Props" 'e

definition render :: "('m, 'e) Editor \<Rightarrow> 'm Props \<Rightarrow> error + ('m, 'e) rendered" where
  "render editor props =
     (let newDecorations = getDecorations editor (node props)
      in case nodes (node props) of
           None \<Rightarrow> Inl TypeError
         | Some ns \<Rightarrow>
             (case mapE (renderChild props newDecorations) (zip ns [0..<length ns]) of
                Inl e \<Rightarrow> Inl e
              | Inr children \<Rightarrow>
                  (let attributes =
                         [(''data-key'', key (node props))] @
                         (if isLeafBlock (node props) \<and>
                             getTextDirection editor (node props) = Some ''rtl''
                          then [(''dir'', ''rtl'')] else []);
                       hprops = HookProps (key (node props))
                                  (map_option focused (selection props))
                                  (selection props) (node props) (parent props)
                                  (readOnly props) attributes children;
                       render =
                         (if object (node props) = ''block'' then Some ''renderBlock''
                          else if object (node props) = ''document'' then Some ''renderDocument''
                          else if object (node props) = ''inline'' then Some ''renderInline''
                          else None);
                       element = run editor render hprops
                   in Inr (if isVoid editor (node props) then Void props element
                           else Plain element))))"

section \<open>Well-formed ranges\<close>

text \<open>
  The order of points: paths first, lexicographically, then offsets. A range is
  well-formed for the children \<open>ns\<close> of a node when its start is at or before its end and
  the leading path component of each endpoint is the index of one of the children.
\<close>

fun pathLe :: "nat list \<Rightarrow> nat list \<Rightarrow> bool" where
  "pathLe [] ys = True"
| "pathLe (x # xs) [] = False"
| "pathLe (x # xs) (y # ys) = (x < y \<or> (x = y \<and> pathLe xs ys))"

definition pointLe :: "Point \<Rightarrow> Point \<Rightarrow> bool" where
  "pointLe p q = (if path p = path q then offset p \<le> offset q else pathLe (path p) (path q))"

definition indexesChild :: "node list \<Rightarrow> Point \<Rightarrow> bool" where
  "indexesChild ns p = (case first (path p) of None \<Rightarrow> False | Some i \<Rightarrow> i < length ns)"

definition wellFormed :: "node list \<Rightarrow> 'm Range \<Rightarrow> bool" where
  "wellFormed ns r =
     (pointLe (start r) (end' r) \<and> indexesChild ns (start r) \<and> indexesChild ns (end' r))"

text \<open>A child onto which a point can be clamped: a text leaf, or a node with one below it.\<close>

definition hasTextLeaf :: "node \<Rightarrow> bool" where
  "hasTextLeaf c = (object c = ''text'' \<or> texts Forward c \<noteq> [])"

section \<open>Example values\<close>

definition helloWorld :: node where
  "helloWorld = Element 0 Block ''b'' [Text 1 ''t0'' ''Hello'', Text 2 ''t1'' ''World'']"

text \<open>
  An editor whose update hook answers \<open>v\<close>, whose render hook returns the name of the
  hook it was asked for, for which the inlines are void, and without decorations.
\<close>

definition plainEditor :: "bool option \<Rightarrow> (unit, string option) Editor" where
  "plainEditor v =
     \<lparr>shouldNodeComponentUpdate = \<lambda>_ _. v, run = \<lambda>h _. h,
      isVoid = \<lambda>n. object n = ''inline'', getDecorations = \<lambda>_. [],
      getTextDirection = \<lambda>_. None\<rparr>"

text \<open>Props of a text leaf at address \<open>a\<close>, with the two flags as given.\<close>

definition leafProps :: "nat \<Rightarrow> bool \<Rightarrow> bool \<Rightarrow> unit Props" where
  "leafProps a sel foc =
     \<lparr>annotations = [], block = None, decorations = [], node = Text a ''a'' ''x'',
      parent = None, readOnly = False, selection = None, isSelected = sel, isFocused = foc\<rparr>"

text \<open>Props of an element without overlays.\<close>

definition elementProps :: "node \<Rightarrow> unit Props" where
  "elementProps nd =
     \<lparr>annotations = [], block = None, decorations = [], node = nd,
      parent = None, readOnly = False, selection = None, isSelected = False,
      isFocused = False\<rparr>"

text \<open>
  An editor that decorates every node with one range from offset 2 of child 0 to offset
  3 of child 1, and props for \<open>helloWorld\<close> with one inherited decoration and one
  annotation that lies in child 0.
\<close>

definition decoratingEditor :: "(string, string option) Editor" where
  "decoratingEditor =
     \<lparr>shouldNodeComponentUpdate = \<lambda>_ _. None, run = \<lambda>h _. h,
      isVoid = \<lambda>_. False,
      getDecorations = \<lambda>_. [\<lparr>start = \<lparr>path = [0], offset = 2\<rparr>,
                                end' = \<lparr>path = [1], offset = 3\<rparr>,
                                focused = False, metadata = ''fresh''\<rparr>],
      getTextDirection = \<lambda>_. None\<rparr>"

definition overlayProps :: "string Props" where
  "overlayProps =
     \<lparr>annotations = [(''c1'', \<lparr>start = \<lparr>path = [0], offset = 1\<rparr>,
                               end' = \<lparr>path = [0], offset = 4\<rparr>,
                               focused = False, metadata = ''comment''\<rparr>)],
      block = None,
      decorations = [\<lparr>start = \<lparr>path = [], offset = 0\<rparr>, end' = \<lparr>path = [], offset = 1\<rparr>,
                      focused = False, metadata = ''inherited''\<rparr>],
      node = helloWorld, parent = None, readOnly = False, selection = None,
      isSelected = False, isFocused = False\<rparr>"

section \<open>Properties of the range projector\<close>

lemmas projector_defs =
  getRelativeRange_def relativeStart_def relativeEnd_def get_def first_def rest_def
  js_lt_def js_le_def setPath_def moveTo_def setStart_def setEnd_def create_def

text \<open>
  Claim C1. The range from offset 2 of child 0 to offset 3 of child 1, projected against
  a node with the text children "Hello" and "World", is said to give on child 0 the
  start \<open>([], 2)\<close> and the end \<open>([], 5)\<close>, and on child 1 the start \<open>([], 0)\<close> and the end
  \<open>([], 3)\<close>. The rebased points are so; a point clamped onto a text leaf, though, is
  moved to the path \<open>[index]\<close>, the path of the leaf in its parent, not to the empty path:
  the clamped end on child 0 is \<open>([0], 5)\<close> and the clamped start on child 1 is \<open>([1], 0)\<close>.
\<close>

theorem exact_boundary_projection:
  "getRelativeRange helloWorld 0
     \<lparr>start = \<lparr>path = [0], offset = 2\<rparr>, end' = \<lparr>path = [1], offset = 3\<rparr>,
      focused = False, metadata = ()\<rparr>
   = Inr (Some \<lparr>start = \<lparr>path = [], offset = 2\<rparr>, end' = \<lparr>path = [0], offset = 5\<rparr>,
                focused = False, metadata = ()\<rparr>)
   \<and>
   getRelativeRange helloWorld 1
     \<lparr>start = \<lparr>path = [0], offset = 2\<rparr>, end' = \<lparr>path = [1], offset = 3\<rparr>,
      focused = False, metadata = ()\<rparr>
   = Inr (Some \<lparr>start = \<lparr>path = [1], offset = 0\<rparr>, end' = \<lparr>path = [], offset = 3\<rparr>,
                focused = False, metadata = ()\<rparr>)"
  by (simp add: projector_defs helloWorld_def)

text \<open>
  Claim C10. A range whose start path is empty projects to \<^verbatim>\<open>null\<close> onto every child of
  every node with children: the absent first component equals no index and is below
  none, so there is no start, and the end is not clamped either.
\<close>

theorem empty_start_path_projects_to_null:
  assumes "nodes nd = Some ns" and "path (start rng) = []"
  shows "getRelativeRange nd index rng = Inr None"
  using assms by (simp add: projector_defs Let_def split: option.splits list.splits)

theorem empty_start_path_witness:
  "nodes helloWorld = Some [Text 1 ''t0'' ''Hello'', Text 2 ''t1'' ''World''] \<and>
   path (start \<lparr>start = \<lparr>path = [], offset = 2\<rparr>, end' = \<lparr>path = [1], offset = 3\<rparr>,
                focused = False, metadata = ()\<rparr>) = [] \<and>
   getRelativeRange helloWorld 1
     \<lparr>start = \<lparr>path = [], offset = 2\<rparr>, end' = \<lparr>path = [1], offset = 3\<rparr>,
      focused = False, metadata = ()\<rparr> = Inr None"
  using empty_start_path_projects_to_null
    [of helloWorld "[Text 1 ''t0'' ''Hello'', Text 2 ''t1'' ''World'']"
        "\<lparr>start = \<lparr>path = [], offset = 2\<rparr>, end' = \<lparr>path = [1], offset = 3\<rparr>,
          focused = False, metadata = ()\<rparr>" 1]
  by (simp add: helloWorld_def)

lemma start_null_end_no_error:
  "relativeStart child index rng = Inr None \<Longrightarrow> relativeEnd child index rng \<noteq> Inl e"
  by (auto simp: relativeStart_def relativeEnd_def js_lt_def js_le_def Let_def
      split: option.splits if_splits list.splits)

lemma end_null_start_no_error:
  "relativeEnd child index rng = Inr None \<Longrightarrow> relativeStart child index rng \<noteq> Inl e"
  by (auto simp: relativeStart_def relativeEnd_def js_lt_def js_le_def Let_def
      split: option.splits if_splits list.splits)

text \<open>
  Claim C8. When both projected endpoints resolve, the projector returns the range with
  these two endpoints and with the focus flag and the metadata of the input; when one of
  them is \<^verbatim>\<open>null\<close>, it returns \<^verbatim>\<open>null\<close> (and the other one has not raised).
\<close>

theorem projection_frame:
  assumes "nodes nd = Some ns"
  shows "(relativeStart (get ns index) index rng = Inr (Some s) \<and>
          relativeEnd (get ns index) index rng = Inr (Some e) \<longrightarrow>
            (\<exists>r. getRelativeRange nd index rng = Inr (Some r) \<and>
                 start r = s \<and> end' r = e \<and>
                 focused r = focused rng \<and> metadata r = metadata rng))
         \<and>
         (relativeStart (get ns index) index rng = Inr None \<or>
          relativeEnd (get ns index) index rng = Inr None \<longrightarrow>
            getRelativeRange nd index rng = Inr None)"
proof (intro conjI impI)
  assume "relativeStart (get ns index) index rng = Inr (Some s) \<and>
          relativeEnd (get ns index) index rng = Inr (Some e)"
  with assms show "\<exists>r. getRelativeRange nd index rng = Inr (Some r) \<and>
                 start r = s \<and> end' r = e \<and>
                 focused r = focused rng \<and> metadata r = metadata rng"
    by (simp add: getRelativeRange_def setStart_def setEnd_def)
next
  assume "relativeStart (get ns index) index rng = Inr None \<or>
          relativeEnd (get ns index) index rng = Inr None"
  then show "getRelativeRange nd index rng = Inr None"
  proof
    assume s: "relativeStart (get ns index) index rng = Inr None"
    obtain y where "relativeEnd (get ns index) index rng = Inr y"
      using start_null_end_no_error [OF s]
      by (cases "relativeEnd (get ns index) index rng") (auto intro: error.exhaust)
    with s assms show ?thesis by (simp add: getRelativeRange_def split: option.splits)
  next
    assume e: "relativeEnd (get ns index) index rng = Inr None"
    obtain y where "relativeStart (get ns index) index rng = Inr y"
      using end_null_start_no_error [OF e]
      by (cases "relativeStart (get ns index) index rng") (auto intro: error.exhaust)
    with e assms show ?thesis by (simp add: getRelativeRange_def split: option.splits)
  qed
qed

theorem projection_frame_witness:
  "(\<exists>r. getRelativeRange helloWorld 0
      \<lparr>start = \<lparr>path = [0], offset = 2\<rparr>, end' = \<lparr>path = [1], offset = 3\<rparr>,
       focused = True, metadata = ''bold''\<rparr> = Inr (Some r) \<and>
      start r = \<lparr>path = [], offset = 2\<rparr> \<and> end' r = \<lparr>path = [0], offset = 5\<rparr> \<and>
      focused r = True \<and> metadata r = ''bold'') \<and>
   getRelativeRange helloWorld 1
      \<lparr>start = \<lparr>path = [0], offset = 2\<rparr>, end' = \<lparr>path = [0], offset = 3\<rparr>,
       focused = True, metadata = ''bold''\<rparr> = Inr None"
proof -
  let ?ns = "[Text 1 ''t0'' ''Hello'', Text 2 ''t1'' ''World'']"
  let ?r0 = "\<lparr>start = \<lparr>path = [0], offset = 2\<rparr>, end' = \<lparr>path = [1], offset = 3\<rparr>,
       focused = True, metadata = ''bold''\<rparr>"
  let ?r1 = "\<lparr>start = \<lparr>path = [0], offset = 2\<rparr>, end' = \<lparr>path = [0], offset = 3\<rparr>,
       focused = True, metadata = ''bold''\<rparr>"
  have n: "nodes helloWorld = Some ?ns" by (simp add: helloWorld_def)
  have a: "relativeStart (get ?ns 0) 0 ?r0 = Inr (Some \<lparr>path = [], offset = 2\<rparr>) \<and>
     relativeEnd (get ?ns 0) 0 ?r0 = Inr (Some \<lparr>path = [0], offset = 5\<rparr>)"
    by (simp add: projector_defs)
  have b: "relativeStart (get ?ns 1) 1 ?r1 = Inr None"
    by (simp add: projector_defs)
  from projection_frame [OF n, where index = 0 and rng = ?r0
         and s = "\<lparr>path = [], offset = 2\<rparr>" and e = "\<lparr>path = [0], offset = 5\<rparr>"] a
       projection_frame [OF n, where index = 1 and rng = ?r1
         and s = "\<lparr>path = [], offset = 2\<rparr>" and e = "\<lparr>path = [0], offset = 5\<rparr>"] b
  show ?thesis by simp
qed

text \<open>
  Claim C6, as stated: a range one of whose leading path components is not the index of
  a child projects to \<^verbatim>\<open>null\<close>. It fails when only the end is out of range: with two
  children, the range from child 0 to a child 9 projects onto child 1 as the whole of
  that child.
\<close>

theorem out_of_range_end_counterexample:
  "nodes helloWorld = Some [Text 1 ''t0'' ''Hello'', Text 2 ''t1'' ''World''] \<and>
   \<not> (9::nat) < length [Text 1 ''t0'' ''Hello'', Text 2 ''t1'' ''World''] \<and>
   getRelativeRange helloWorld 1
     \<lparr>start = \<lparr>path = [0], offset = 2\<rparr>, end' = \<lparr>path = [9], offset = 3\<rparr>,
      focused = False, metadata = ()\<rparr>
   = Inr (Some \<lparr>start = \<lparr>path = [1], offset = 0\<rparr>, end' = \<lparr>path = [1], offset = 5\<rparr>,
                focused = False, metadata = ()\<rparr>)"
  by (simp add: projector_defs helloWorld_def)

text \<open>
  Claim C6, amended: when the leading path component of the start of a range is not the
  index of a child of the node, the projector returns \<^verbatim>\<open>null\<close> for every child of the
  node and raises nothing.
\<close>

theorem out_of_range_start_projects_to_null:
  assumes "nodes nd = Some ns" and "first (path (start rng)) = Some startIndex"
    and "length ns \<le> startIndex" and "index < length ns"
  shows "getRelativeRange nd index rng = Inr None"
  using assms
  by (auto simp: getRelativeRange_def relativeStart_def relativeEnd_def js_lt_def js_le_def
      Let_def split: option.splits)

theorem out_of_range_start_witness:
  "getRelativeRange helloWorld 1
     \<lparr>start = \<lparr>path = [7], offset = 2\<rparr>, end' = \<lparr>path = [9], offset = 3\<rparr>,
      focused = False, metadata = ()\<rparr> = Inr None"
  using out_of_range_start_projects_to_null
    [of helloWorld "[Text 1 ''t0'' ''Hello'', Text 2 ''t1'' ''World'']"
        "\<lparr>start = \<lparr>path = [7], offset = 2\<rparr>, end' = \<lparr>path = [9], offset = 3\<rparr>,
          focused = False, metadata = ()\<rparr>" 7 1]
  by (simp add: first_def helloWorld_def)

lemma texts_backward_empty: "texts Backward c = [] \<longleftrightarrow> texts Forward c = []"
  by (cases c) (simp_all add: texts_def)

lemma pointLe_first:
  assumes "pointLe p q" and "first (path p) = Some si" and "first (path q) = Some ei"
  shows "si \<le> ei"
  using assms
  by (cases "path p"; cases "path q") (auto simp: pointLe_def first_def split: if_splits)

lemma relativeStart_in_run:
  assumes "first (path (start rng)) = Some si" and "first (path (end' rng)) = Some ei"
    and "si \<le> i" and "i \<le> ei" and "i < length ns" and "si < ei \<longrightarrow> hasTextLeaf (ns ! i)"
  shows "\<exists>s. relativeStart (get ns i) i rng = Inr (Some s)"
  using assms
  by (auto simp: relativeStart_def get_def js_lt_def js_le_def hasTextLeaf_def Let_def
      split: list.splits)

lemma relativeEnd_in_run:
  assumes "first (path (start rng)) = Some si" and "first (path (end' rng)) = Some ei"
    and "si \<le> i" and "i \<le> ei" and "i < length ns" and "si < ei \<longrightarrow> hasTextLeaf (ns ! i)"
  shows "\<exists>e. relativeEnd (get ns i) i rng = Inr (Some e)"
  using assms
  by (auto simp: relativeEnd_def get_def js_lt_def js_le_def hasTextLeaf_def Let_def
      texts_backward_empty split: list.splits)

lemma outside_run_null:
  assumes "nodes nd = Some ns" and "first (path (start rng)) = Some si"
    and "first (path (end' rng)) = Some ei" and "si \<le> ei" and "\<not> (si \<le> i \<and> i \<le> ei)"
  shows "getRelativeRange nd i rng = Inr None"
  using assms
  by (auto simp: getRelativeRange_def relativeStart_def relativeEnd_def js_lt_def js_le_def
      Let_def split: option.splits)

text \<open>
  Claim C2, as stated: for a well-formed range the indices with a projection that is not
  \<^verbatim>\<open>null\<close> are those from the start index to the end index. It fails on a node with a
  child that has no text leaf below it: the range from child 0 to child 2 is well-formed,
  and the projection onto the empty inline at index 1 raises a TypeError instead of
  returning a range.
\<close>

theorem empty_child_counterexample:
  "wellFormed [Text 1 ''t0'' ''a'', Element 2 Inline ''i'' [], Text 3 ''t1'' ''b'']
     \<lparr>start = \<lparr>path = [0], offset = 0\<rparr>, end' = \<lparr>path = [2], offset = 0\<rparr>,
      focused = False, metadata = ()\<rparr> \<and>
   first [0::nat] = Some 0 \<and> first [2::nat] = Some 2 \<and> (0::nat) \<le> 1 \<and> (1::nat) \<le> 2 \<and>
   getRelativeRange
     (Element 0 Block ''b'' [Text 1 ''t0'' ''a'', Element 2 Inline ''i'' [], Text 3 ''t1'' ''b'']) 1
     \<lparr>start = \<lparr>path = [0], offset = 0\<rparr>, end' = \<lparr>path = [2], offset = 0\<rparr>,
      focused = False, metadata = ()\<rparr> = Inl TypeError"
  by (simp add: projector_defs texts_def wellFormed_def indexesChild_def pointLe_def)

text \<open>
  Claim C2, amended: for every node with children, and every well-formed range, such
  that, when the range spans more than one child, every child in the span is a text leaf
  or has one below it, the indices onto which the range projects to a range are exactly
  those from the start index to the end index, without gaps.
\<close>

theorem projection_partition:
  assumes "nodes nd = Some ns" and "wellFormed ns rng"
    and "first (path (start rng)) = Some startIndex"
    and "first (path (end' rng)) = Some endIndex"
    and "startIndex < endIndex \<longrightarrow>
           (\<forall>i. startIndex \<le> i \<and> i \<le> endIndex \<longrightarrow> hasTextLeaf (ns ! i))"
  shows "{i. \<exists>r. getRelativeRange nd i rng = Inr (Some r)} = {startIndex..endIndex}"
proof -
  from assms have le: "startIndex \<le> endIndex" and lt: "endIndex < length ns"
    by (auto simp: wellFormed_def indexesChild_def dest: pointLe_first)
  have "(\<exists>r. getRelativeRange nd i rng = Inr (Some r)) \<longleftrightarrow> startIndex \<le> i \<and> i \<le> endIndex"
    for i
  proof (cases "startIndex \<le> i \<and> i \<le> endIndex")
    case True
    then have i: "i < length ns" using lt by simp
    from True assms(5) have ht: "startIndex < endIndex \<longrightarrow> hasTextLeaf (ns ! i)" by blast
    obtain s where s: "relativeStart (get ns i) i rng = Inr (Some s)"
      using relativeStart_in_run [OF assms(3,4) _ _ i ht] True by blast
    obtain e where e: "relativeEnd (get ns i) i rng = Inr (Some e)"
      using relativeEnd_in_run [OF assms(3,4) _ _ i ht] True by blast
    from s e assms(1) True show ?thesis by (simp add: getRelativeRange_def)
  next
    case False
    with outside_run_null [OF assms(1,3,4) le False] show ?thesis by simp
  qed
  then show ?thesis by auto
qed

theorem projection_partition_witness:
  "{i. \<exists>r. getRelativeRange
       (Element 0 Block ''b''
          [Text 1 ''t0'' ''a'', Element 2 Inline ''i'' [Text 4 ''t2'' ''xy''], Text 3 ''t1'' ''b'']) i
       \<lparr>start = \<lparr>path = [0], offset = 0\<rparr>, end' = \<lparr>path = [1, 0], offset = 1\<rparr>,
        focused = False, metadata = ()\<rparr> = Inr (Some r)} = {0..1}"
  using projection_partition
    [of "Element 0 Block ''b''
          [Text 1 ''t0'' ''a'', Element 2 Inline ''i'' [Text 4 ''t2'' ''xy''], Text 3 ''t1'' ''b'']"
        "[Text 1 ''t0'' ''a'', Element 2 Inline ''i'' [Text 4 ''t2'' ''xy''], Text 3 ''t1'' ''b'']"
        "\<lparr>start = \<lparr>path = [0], offset = 0\<rparr>, end' = \<lparr>path = [1, 0], offset = 1\<rparr>,
          focused = False, metadata = ()\<rparr>" 0 1]
  by (simp add: first_def wellFormed_def indexesChild_def pointLe_def hasTextLeaf_def texts_def
      nth_Cons split: nat.splits)

section \<open>Properties of the update gate\<close>

text \<open>
  Claim C3. A verdict true of the override hook returns update at once. A verdict false
  does not suppress the checks: the verdict of the gate is the one it gives when the hook
  has no opinion, a warning is emitted (nothing is raised), and when the node reference
  differs between the old and the new props the gate still returns update.
\<close>

theorem override_cannot_veto:
  "(shouldNodeComponentUpdate editor p n = Some True \<longrightarrow>
      shouldComponentUpdate editor p n = (True, []))
   \<and>
   (shouldNodeComponentUpdate editor p n = Some False \<longrightarrow>
      fst (shouldComponentUpdate editor p n)
        = fst (shouldComponentUpdate (editor\<lparr>shouldNodeComponentUpdate := \<lambda>_ _. None\<rparr>) p n) \<and>
      snd (shouldComponentUpdate editor p n) = [vetoWarning] \<and>
      (addr (node n) \<noteq> addr (node p) \<longrightarrow> fst (shouldComponentUpdate editor p n) = True))"
  by (auto simp: shouldComponentUpdate_def Let_def)

theorem override_cannot_veto_witness:
  "shouldComponentUpdate (plainEditor (Some True)) (leafProps 1 False False)
     (leafProps 1 False False) = (True, [])
   \<and>
   shouldComponentUpdate (plainEditor (Some False)) (leafProps 1 False False)
     (leafProps 2 False False) = (True, [vetoWarning])"
proof -
  let ?yes = "plainEditor (Some True)"
  let ?no = "plainEditor (Some False)"
  let ?p = "leafProps 1 False False"
  let ?n = "leafProps 2 False False"
  have a: "shouldComponentUpdate ?yes ?p ?p = (True, [])"
    using override_cannot_veto [where editor = ?yes and p = ?p and n = ?p]
    by (simp add: plainEditor_def)
  have h: "shouldNodeComponentUpdate ?no ?p ?n = Some False"
    by (simp add: plainEditor_def)
  have d: "addr (node ?n) \<noteq> addr (node ?p)"
    by (simp add: leafProps_def)
  have b: "snd (shouldComponentUpdate ?no ?p ?n) = [vetoWarning]"
    and c: "fst (shouldComponentUpdate ?no ?p ?n) = True"
    using override_cannot_veto [where editor = ?no and p = ?p and n = ?n] h d by blast+
  from a b c show ?thesis by (simp add: prod_eq_iff)
qed




text \<open>
  Claim C5, as stated: with identical old and new props the gate returns false. It
  fails for props in which the node is selected: the gate returns update although
  nothing has changed.
\<close>

theorem identical_selected_props_counterexample:
  "fst (shouldComponentUpdate (plainEditor None) (leafProps 1 True False)
          (leafProps 1 True False)) = True"
  by (simp add: shouldComponentUpdate_def plainEditor_def leafProps_def)

text \<open>
  Claim C5, amended: for props in which the node is neither selected nor focused, and a
  hook that does not say yes, the gate called with identical old and new props returns
  false.
\<close>

theorem identical_props_skip:
  assumes "\<not> isSelected p" and "\<not> isFocused p"
    and "shouldNodeComponentUpdate editor p p \<noteq> Some True"
  shows "fst (shouldComponentUpdate editor p p) = False"
  using assms by (auto simp: shouldComponentUpdate_def Let_def equalsMap_def equalsList_def)

theorem identical_props_skip_witness:
  "\<not> isSelected (elementProps helloWorld) \<and> \<not> isFocused (elementProps helloWorld) \<and>
   shouldNodeComponentUpdate (plainEditor (Some False)) (elementProps helloWorld)
     (elementProps helloWorld) \<noteq> Some True \<and>
   fst (shouldComponentUpdate (plainEditor (Some False)) (elementProps helloWorld)
          (elementProps helloWorld)) = False"
  using identical_props_skip
    [where editor = "plainEditor (Some False)" and p = "elementProps helloWorld"]
  by (simp add: elementProps_def plainEditor_def)

section \<open>Properties of rendering\<close>

lemma mapE_Inr_length: "mapE f xs = Inr ys \<Longrightarrow> length ys = length xs"
  by (induction xs arbitrary: ys) (auto split: sum.splits)

lemma mapE_Inr_nth: "mapE f xs = Inr ys \<Longrightarrow> i < length xs \<Longrightarrow> f (xs ! i) = Inr (ys ! i)"
proof (induction xs arbitrary: ys i)
  case Nil
  then show ?case by simp
next
  case (Cons x xs)
  then show ?case by (cases i) (auto split: sum.splits)
qed

lemma mapE_Inr_map: "mapE f xs = Inr ys \<Longrightarrow> map f xs = map Inr ys"
  by (induction xs arbitrary: ys) (auto split: sum.splits)

lemma mapE_entries:
  "mapE (\<lambda>(k, a). case g a of Inl e \<Rightarrow> Inl e | Inr r \<Rightarrow> Inr (k, r)) xs = Inr ys \<Longrightarrow>
     map (\<lambda>(k, a). g a) xs = map Inr (map snd ys) \<and> ys = zip (map fst xs) (map snd ys)"
proof (induction xs arbitrary: ys)
  case Nil
  then show ?case by simp
next
  case (Cons x xs)
  obtain k a where x: "x = (k, a)" by (cases x)
  from Cons.prems x obtain y zs where g: "g a = Inr y"
    and zs: "mapE (\<lambda>(k, a). case g a of Inl e \<Rightarrow> Inl e | Inr r \<Rightarrow> Inr (k, r)) xs = Inr zs"
    and ys: "ys = (k, y) # zs"
    by (cases "g a") (auto split: sum.splits)
  from Cons.IH [OF zs] g ys x show ?case by simp
qed

lemma filterTruthy_comprehension: "filterTruthy ds = [r. Some r \<leftarrow> ds]"
  by (induction ds rule: filterTruthy.induct) simp_all

lemma filterTruthyEntries_comprehension:
  "filterTruthyEntries zs = [(k, r). (k, Some r) \<leftarrow> zs]"
  by (induction zs rule: filterTruthyEntries.induct) simp_all

text \<open>What a render that returns has computed.\<close>

lemma render_Inr:
  assumes "render editor props = Inr out"
  obtains ns children where "nodes (node props) = Some ns"
    and "mapE (renderChild props (getDecorations editor (node props))) (zip ns [0..<length ns])
           = Inr children"
    and "out = (if isVoid editor (node props) then Void props else Plain)
           (run editor
              (if object (node props) = ''block'' then Some ''renderBlock''
               else if object (node props) = ''document'' then Some ''renderDocument''
               else if object (node props) = ''inline'' then Some ''renderInline''
               else None)
              (HookProps (key (node props)) (map_option focused (selection props))
                 (selection props) (node props) (parent props) (readOnly props)
                 ([(''data-key'', key (node props))] @
                  (if isLeafBlock (node props) \<and>
                      getTextDirection editor (node props) = Some ''rtl''
                   then [(''dir'', ''rtl'')] else []))
                 children))"
  using assms by (auto simp: render_def Let_def split: option.splits sum.splits if_splits)

lemma renderChild_Inr:
  assumes "renderChild props fresh (child, i) = Inr el"
  obtains sel ds as where
    "el = ComponentElement (if object child = ''text'' then TextComponent else NodeComponent)
           (key child)
           \<lparr>annotations = filterTruthyEntries as,
            block = (if object (node props) = ''block'' then Some (node props) else block props),
            decorations = filterTruthy ds @ decorations props,
            node = child, parent = Some (node props), readOnly = readOnly props,
            selection = sel, isSelected = False, isFocused = False\<rparr>"
    and "mapE (\<lambda>d. getRelativeRange (node props) i d) fresh = Inr ds"
    and "mapE (\<lambda>(k, a). case getRelativeRange (node props) i a of
                           Inl e \<Rightarrow> Inl e | Inr r \<Rightarrow> Inr (k, r)) (annotations props) = Inr as"
  using assms by (auto simp: renderChild_def Let_def split: option.splits sum.splits)

text \<open>
  Claim C7. When a node is rendered, the element made for child \<open>i\<close> carries as
  decorations the fresh decorations of the node, each projected onto child \<open>i\<close> with the
  \<^verbatim>\<open>null\<close> results dropped, followed by the decorations the node has inherited, as they
  are; and as annotations the inherited annotations, each projected onto child \<open>i\<close> with
  the \<^verbatim>\<open>null\<close> results dropped. Here \<open>ds\<close> and \<open>as\<close> are the results of the projections,
  none of which has raised.
\<close>

theorem child_overlays:
  assumes "render editor props = Inr out" and "nodes (node props) = Some ns" and "i < length ns"
  shows "\<exists>hook attributes children comp cp ds as.
           out = (if isVoid editor (node props) then Void props else Plain)
                   (run editor hook
                      (HookProps (key (node props)) (map_option focused (selection props))
                         (selection props) (node props) (parent props) (readOnly props)
                         attributes children)) \<and>
           length children = length ns \<and>
           children ! i = ComponentElement comp (key (ns ! i)) cp \<and>
           node cp = ns ! i \<and>
           map (getRelativeRange (node props) i) (getDecorations editor (node props))
             = map Inr ds \<and>
           decorations cp = [r. Some r \<leftarrow> ds] @ decorations props \<and>
           map (\<lambda>(k, a). getRelativeRange (node props) i a) (annotations props) = map Inr as \<and>
           annotations cp = [(k, r). (k, Some r) \<leftarrow> zip (map fst (annotations props)) as]"
proof -
  from assms(1) obtain ns' children where ns': "nodes (node props) = Some ns'"
    and ch: "mapE (renderChild props (getDecorations editor (node props)))
               (zip ns' [0..<length ns']) = Inr children"
    and out: "out = (if isVoid editor (node props) then Void props else Plain)
           (run editor
              (if object (node props) = ''block'' then Some ''renderBlock''
               else if object (node props) = ''document'' then Some ''renderDocument''
               else if object (node props) = ''inline'' then Some ''renderInline''
               else None)
              (HookProps (key (node props)) (map_option focused (selection props))
                 (selection props) (node props) (parent props) (readOnly props)
                 ([(''data-key'', key (node props))] @
                  (if isLeafBlock (node props) \<and>
                      getTextDirection editor (node props) = Some ''rtl''
                   then [(''dir'', ''rtl'')] else []))
                 children))"
    by (rule render_Inr)
  from ns' assms(2) have [simp]: "ns' = ns" by simp
  from ch have len: "length children = length ns" by (simp add: mapE_Inr_length)
  from mapE_Inr_nth [OF ch, of i] assms(3)
  have "renderChild props (getDecorations editor (node props)) (ns ! i, i) = Inr (children ! i)"
    by simp
  then obtain sel ds as where
    el: "children ! i =
           ComponentElement (if object (ns ! i) = ''text'' then TextComponent else NodeComponent)
           (key (ns ! i))
           \<lparr>annotations = filterTruthyEntries as,
            block = (if object (node props) = ''block'' then Some (node props) else block props),
            decorations = filterTruthy ds @ decorations props,
            node = ns ! i, parent = Some (node props), readOnly = readOnly props,
            selection = sel, isSelected = False, isFocused = False\<rparr>"
    and ds: "mapE (\<lambda>d. getRelativeRange (node props) i d) (getDecorations editor (node props))
               = Inr ds"
    and as: "mapE (\<lambda>(k, a). case getRelativeRange (node props) i a of
                               Inl e \<Rightarrow> Inl e | Inr r \<Rightarrow> Inr (k, r)) (annotations props) = Inr as"
    by (rule renderChild_Inr)
  from mapE_entries [OF as]
  have as1: "map (\<lambda>(k, a). getRelativeRange (node props) i a) (annotations props)
               = map Inr (map snd as)"
    and as2: "as = zip (map fst (annotations props)) (map snd as)" by simp_all
  have an: "filterTruthyEntries as
              = [(k, r). (k, Some r) \<leftarrow> zip (map fst (annotations props)) (map snd as)]"
    using as2 filterTruthyEntries_comprehension [of as] by simp
  show ?thesis
    apply (rule exI)+
    apply (intro conjI)
           apply (rule out)
          apply (rule len)
         apply (rule el)
        apply simp
       apply (rule mapE_Inr_map [OF ds])
      apply (simp add: filterTruthy_comprehension)
     apply (rule as1)
    apply (simp only: Props.simps an)
    done
qed

theorem child_overlays_witness:
  "render decoratingEditor overlayProps = Inr (Plain (Some ''renderBlock'')) \<and>
   nodes (node overlayProps) = Some [Text 1 ''t0'' ''Hello'', Text 2 ''t1'' ''World''] \<and>
   (1::nat) < length [Text 1 ''t0'' ''Hello'', Text 2 ''t1'' ''World''] \<and>
   (\<exists>hook attributes children comp cp ds as.
      Plain (Some ''renderBlock'') =
        (if isVoid decoratingEditor (node overlayProps) then Void overlayProps else Plain)
          (run decoratingEditor hook
             (HookProps (key (node overlayProps)) (map_option focused (selection overlayProps))
                (selection overlayProps) (node overlayProps) (parent overlayProps)
                (readOnly overlayProps) attributes children)) \<and>
      length children = length [Text 1 ''t0'' ''Hello'', Text 2 ''t1'' ''World''] \<and>
      children ! 1 =
        ComponentElement comp (key ([Text 1 ''t0'' ''Hello'', Text 2 ''t1'' ''World''] ! 1)) cp \<and>
      node cp = [Text 1 ''t0'' ''Hello'', Text 2 ''t1'' ''World''] ! 1 \<and>
      map (getRelativeRange (node overlayProps) 1)
        (getDecorations decoratingEditor (node overlayProps)) = map Inr ds \<and>
      decorations cp = [r. Some r \<leftarrow> ds] @ decorations overlayProps \<and>
      map (\<lambda>(k, a). getRelativeRange (node overlayProps) 1 a) (annotations overlayProps)
        = map Inr as \<and>
      annotations cp = [(k, r). (k, Some r) \<leftarrow> zip (map fst (annotations overlayProps)) as])"
proof -
  have r: "render decoratingEditor overlayProps = Inr (Plain (Some ''renderBlock''))"
    by code_simp
  have n: "nodes (node overlayProps) = Some [Text 1 ''t0'' ''Hello'', Text 2 ''t1'' ''World'']"
    by (simp add: overlayProps_def helloWorld_def)
  have i: "(1::nat) < length [Text 1 ''t0'' ''Hello'', Text 2 ''t1'' ''World'']"
    by simp
  from r n i child_overlays [OF r n i] show ?thesis by (intro conjI)
qed

text \<open>
  Claim C9. The render hook that is run is the one of the category of the node:
  \<^verbatim>\<open>renderDocument\<close> for a document, \<^verbatim>\<open>renderBlock\<close> for a block, \<^verbatim>\<open>renderInline\<close> for an
  inline. Its output is the child of the void wrapper, which gets the props of the
  component, exactly when \<^verbatim>\<open>editor.isVoid(node)\<close>; otherwise it is returned as it is.
\<close>

theorem render_hook_and_void:
  assumes "render editor props = Inr out"
  shows "\<exists>a c k ns attributes children.
           node props = Element a c k ns \<and>
           out = (if isVoid editor (node props)
                  then Void props
                         (run editor
                            (Some (case c of Document \<Rightarrow> ''renderDocument''
                                   | Block \<Rightarrow> ''renderBlock'' | Inline \<Rightarrow> ''renderInline''))
                            (HookProps k (map_option focused (selection props))
                               (selection props) (node props) (parent props) (readOnly props)
                               attributes children))
                  else Plain
                         (run editor
                            (Some (case c of Document \<Rightarrow> ''renderDocument''
                                   | Block \<Rightarrow> ''renderBlock'' | Inline \<Rightarrow> ''renderInline''))
                            (HookProps k (map_option focused (selection props))
                               (selection props) (node props) (parent props) (readOnly props)
                               attributes children)))"
proof -
  from assms obtain ns children where ns: "nodes (node props) = Some ns"
    and out: "out = (if isVoid editor (node props) then Void props else Plain)
           (run editor
              (if object (node props) = ''block'' then Some ''renderBlock''
               else if object (node props) = ''document'' then Some ''renderDocument''
               else if object (node props) = ''inline'' then Some ''renderInline''
               else None)
              (HookProps (key (node props)) (map_option focused (selection props))
                 (selection props) (node props) (parent props) (readOnly props)
                 ([(''data-key'', key (node props))] @
                  (if isLeafBlock (node props) \<and>
                      getTextDirection editor (node props) = Some ''rtl''
                   then [(''dir'', ''rtl'')] else []))
                 children))"
    by (rule render_Inr)
  from ns obtain a c k where nd: "node props = Element a c k ns"
    by (cases "node props") auto
  show ?thesis
    using out nd by (cases c) auto
qed

theorem render_hook_and_void_witness:
  "render (plainEditor None) (elementProps (Element 5 Inline ''i'' [Text 6 ''t'' ''x'']))
     = Inr (Void (elementProps (Element 5 Inline ''i'' [Text 6 ''t'' ''x'']))
              (Some ''renderInline'')) \<and>
   render (plainEditor None) (elementProps helloWorld) = Inr (Plain (Some ''renderBlock'')) \<and>
   render (plainEditor None) (elementProps (Element 7 Document ''d'' []))
     = Inr (Plain (Some ''renderDocument''))"
proof -
  have v: "isVoid (plainEditor None) (Element 5 Inline ''i'' [Text 6 ''t'' ''x''])"
    and b: "\<not> isVoid (plainEditor None) helloWorld"
    and d: "\<not> isVoid (plainEditor None) (Element 7 Document ''d'' [])"
    by (simp_all add: plainEditor_def helloWorld_def)
  have r: "run (plainEditor None) = (\<lambda>h _. h)"
    by (simp add: plainEditor_def)
  have "\<exists>o1. render (plainEditor None)
      (elementProps (Element 5 Inline ''i'' [Text 6 ''t'' ''x''])) = Inr o1"
    by (simp add: render_def renderChild_def plainEditor_def elementProps_def Let_def upt_rec)
  then obtain o1 where o1: "render (plainEditor None)
      (elementProps (Element 5 Inline ''i'' [Text 6 ''t'' ''x''])) = Inr o1" ..
  have "\<exists>o2. render (plainEditor None) (elementProps helloWorld) = Inr o2"
    by (simp add: render_def renderChild_def plainEditor_def elementProps_def helloWorld_def Let_def upt_rec)
  then obtain o2 where o2: "render (plainEditor None) (elementProps helloWorld) = Inr o2" ..
  have "\<exists>o3. render (plainEditor None) (elementProps (Element 7 Document ''d'' [])) = Inr o3"
    by (simp add: render_def renderChild_def plainEditor_def elementProps_def Let_def)
  then obtain o3 where o3: "render (plainEditor None)
      (elementProps (Element 7 Document ''d'' [])) = Inr o3" ..
  from render_hook_and_void [OF o1] v r
  have "o1 = Void (elementProps (Element 5 Inline ''i'' [Text 6 ''t'' ''x'']))
               (Some ''renderInline'')"
    by (auto simp: elementProps_def)
  moreover from render_hook_and_void [OF o2] b r
  have "o2 = Plain (Some ''renderBlock'')"
    by (auto simp: elementProps_def helloWorld_def)
  moreover from render_hook_and_void [OF o3] d r
  have "o3 = Plain (Some ''renderDocument'')"
    by (auto simp: elementProps_def)
  ultimately show ?thesis using o1 o2 o3 by simp
qed

end
